theory Spec2Isabelle
  imports Complex_Main "HOL-Library.Char_ord" "HOL-Library.List_Lexorder"
begin

section \<open>Policy parameter projection (ppp.py)\<close>

text \<open>
  The script \<^verbatim>\<open>ppp.py\<close> projects the values of inflation-indexed policy parameters.
  Its numbers are Python floats and unbounded Python integers. They are modelled here as
  real numbers: \<open>/\<close> is exact division, \<open>math.floor\<close> and \<open>math.ceil\<close> are \<open>\<lfloor>_\<rfloor>\<close> and
  \<open>\<lceil>_\<rceil>\<close>, so every statement below is about the arithmetic the script writes down, not
  about the binary rounding of IEEE doubles. Years and list indices are Python integers
  (\<open>int\<close>).
\<close>

subsection \<open>Python values and errors\<close>

datatype py_error = KeyError | IndexError | NameError | ZeroDivisionError | AssertionError

text \<open>The subscript \<^verbatim>\<open>xs[i]\<close> on a list of length \<open>n\<close>: positions \<open>0 \<le> i < n\<close> are read
  directly, positions \<open>-n \<le> i < 0\<close> are read from the end, everything else raises
  \<^verbatim>\<open>IndexError\<close>.\<close>

definition get :: "'a list \<Rightarrow> int \<Rightarrow> py_error + 'a" where
  "get xs i =
     (if 0 \<le> i \<and> i < int (length xs) then Inr (xs ! nat i)
      else if i < 0 \<and> - int (length xs) \<le> i then Inr (xs ! nat (int (length xs) + i))
      else Inl IndexError)"

text \<open>The float remainder \<^verbatim>\<open>x % y\<close> of Python (\<open>y \<noteq> 0\<close>): it has the sign of \<open>y\<close>.\<close>

definition py_mod :: "real \<Rightarrow> real \<Rightarrow> real" where
  "py_mod x y = x - y * of_int \<lfloor>x / y\<rfloor>"

text \<open>\<^verbatim>\<open>round(x, ndigits)\<close> of Python 3 rounds to the nearest multiple of \<open>10\<^sup>-\<^sup>n\<close>, a tie
  going to the even multiple.\<close>

definition round_half_even :: "real \<Rightarrow> int" where
  "round_half_even x =
     (let f = \<lfloor>x\<rfloor>; d = x - of_int f
      in if d < 1 / 2 then f else if 1 / 2 < d then f + 1
         else if even f then f else f + 1)"

definition py_round :: "real \<Rightarrow> nat \<Rightarrow> real" where
  "py_round x ndigits = of_int (round_half_even (x * 10 ^ ndigits)) / 10 ^ ndigits"

text \<open>The constant \<^verbatim>\<open>9e99\<close> that stands for "infinity" in the parameter table.\<close>

definition inf_cap :: real where
  "inf_cap = 9 * 10 ^ 99"

subsection \<open>The parameter table\<close>

text \<open>A parameter value is a number or a list of numbers, one per column
  (\<^verbatim>\<open>isinstance(value, list)\<close>).\<close>

datatype pval = Scalar real | Vector "real list"

text \<open>One entry of \<^verbatim>\<open>pdata\<close>. The key \<^verbatim>\<open>'round_dir'\<close> may be absent
  (\<^verbatim>\<open>'round_dir' in pdata[pname].keys()\<close>); when present it holds a string.\<close>

record param =
  indexed :: bool
  value_seq :: "pval list"
  value_yrs :: "int list"
  round_to :: "real list"
  round_dir :: "string option"

text \<open>The dictionary \<^verbatim>\<open>pdata\<close> as an association list; a dictionary has each key once.\<close>

type_synonym pdata = "(string \<times> param) list"

text \<open>The third argument of the rounding functions is the dictionary of window factors
  or a single number (\<^verbatim>\<open>isinstance(ifactor, dict)\<close>).\<close>

datatype factor_arg = FDict "int \<rightharpoonup> real" | FNum real

subsection \<open>Rounding functions\<close>

text \<open>\<^verbatim>\<open>round_down(pdata, value, ifactor)\<close> reads the loop variables \<^verbatim>\<open>pname\<close>, \<^verbatim>\<open>idx\<close> and
  \<^verbatim>\<open>year\<close> of the module; they are arguments here.\<close>

definition round_down ::
  "pdata \<Rightarrow> string \<Rightarrow> nat \<Rightarrow> int \<Rightarrow> pval \<Rightarrow> factor_arg \<Rightarrow> py_error + real" where
  "round_down pdata pname idx year v ifactor =
     (case map_of pdata pname of None \<Rightarrow> Inl KeyError | Some pdict \<Rightarrow>
      (case v of
         Vector vs \<Rightarrow>
           (case get vs (int idx) of Inl e \<Rightarrow> Inl e | Inr x \<Rightarrow>
            (case (case ifactor of
                     FDict d \<Rightarrow> (case d year of None \<Rightarrow> Inl KeyError | Some f \<Rightarrow> Inr (x * f))
                   | FNum f \<Rightarrow> Inr (x * f)) of Inl e \<Rightarrow> Inl e | Inr val \<Rightarrow>
             (case get (round_to pdict) (int idx) of Inl e \<Rightarrow> Inl e | Inr g \<Rightarrow>
                if g = 0 then Inl ZeroDivisionError
                else Inr (min (of_int \<lfloor>val / g\<rfloor> * g) inf_cap))))
       | Scalar x \<Rightarrow>
           (case (case ifactor of
                    FDict d \<Rightarrow> (case d year of None \<Rightarrow> Inl KeyError | Some f \<Rightarrow> Inr (x * f))
                  | FNum f \<Rightarrow> Inr (x * f)) of Inl e \<Rightarrow> Inl e | Inr val \<Rightarrow>
            (case get (round_to pdict) 0 of Inl e \<Rightarrow> Inl e | Inr g \<Rightarrow>
               if g = 0 then Inl ZeroDivisionError
               else Inr (min (of_int \<lfloor>val / g\<rfloor> * g) inf_cap)))))"

text \<open>\<^verbatim>\<open>round_nearest\<close>: the ceiling on the grid, lowered by one step when the remainder is
  positive and below half a step. The list branch takes the minimum with \<^verbatim>\<open>9e99\<close> once
  inside the correction and once more at the \<^verbatim>\<open>return\<close>.\<close>

definition round_nearest ::
  "pdata \<Rightarrow> string \<Rightarrow> nat \<Rightarrow> int \<Rightarrow> pval \<Rightarrow> factor_arg \<Rightarrow> py_error + real" where
  "round_nearest pdata pname idx year v ifactor =
     (case map_of pdata pname of None \<Rightarrow> Inl KeyError | Some pdict \<Rightarrow>
      (case v of
         Vector vs \<Rightarrow>
           (case get vs (int idx) of Inl e \<Rightarrow> Inl e | Inr x \<Rightarrow>
            (case (case ifactor of
                     FDict d \<Rightarrow> (case d year of None \<Rightarrow> Inl KeyError | Some f \<Rightarrow> Inr (x * f))
                   | FNum f \<Rightarrow> Inr (x * f)) of Inl e \<Rightarrow> Inl e | Inr val \<Rightarrow>
             (case get (round_to pdict) (int idx) of Inl e \<Rightarrow> Inl e | Inr g \<Rightarrow>
                if g = 0 then Inl ZeroDivisionError
                else
                  let val_round = of_int \<lceil>val / g\<rceil> * g;
                      val_round = (if py_mod val g < g / 2 \<and> 0 < py_mod val g
                                   then min (val_round - g) inf_cap else val_round)
                  in Inr (min val_round inf_cap))))
       | Scalar x \<Rightarrow>
           (case (case ifactor of
                    FDict d \<Rightarrow> (case d year of None \<Rightarrow> Inl KeyError | Some f \<Rightarrow> Inr (x * f))
                  | FNum f \<Rightarrow> Inr (x * f)) of Inl e \<Rightarrow> Inl e | Inr val \<Rightarrow>
            (case get (round_to pdict) 0 of Inl e \<Rightarrow> Inl e | Inr g \<Rightarrow>
               if g = 0 then Inl ZeroDivisionError
               else
                 let val_round = of_int \<lceil>val / g\<rceil> * g;
                     val_round = (if py_mod val g < g / 2 \<and> 0 < py_mod val g
                                  then val_round - g else val_round)
                 in Inr (min val_round inf_cap)))))"

subsection \<open>Eligible parameters\<close>

definition skip_list :: "string list" where
  "skip_list = [''_II_brk7'', ''_PT_brk7'']"

text \<open>The loop over \<^verbatim>\<open>sorted(pdata.keys())\<close> that appends to \<^verbatim>\<open>reverting_params\<close>.\<close>

fun reverting_loop :: "pdata \<Rightarrow> int \<Rightarrow> string list \<Rightarrow> string list \<Rightarrow> py_error + string list" where
  "reverting_loop pdata fyr [] acc = Inr acc"
| "reverting_loop pdata fyr (pname # rest) acc =
     (case map_of pdata pname of None \<Rightarrow> Inl KeyError | Some pdict \<Rightarrow>
        if indexed pdict \<and> fyr \<in> set (value_yrs pdict)
        then (if pname \<notin> set skip_list
              then reverting_loop pdata fyr rest (acc @ [pname])
              else reverting_loop pdata fyr rest acc)
        else reverting_loop pdata fyr rest acc)"

definition reverting_params :: "pdata \<Rightarrow> int \<Rightarrow> py_error + string list" where
  "reverting_params pdata fyr = reverting_loop pdata fyr (sort (map fst pdata)) []"

subsection \<open>Output files\<close>

text \<open>A line written to \<^verbatim>\<open>ppp.old\<close> or \<^verbatim>\<open>ppp.new\<close>: the block header of a parameter, or a
  year with its value. The rendering of numbers as text is not modelled.\<close>

datatype line = Header string | Entry int pval

text \<open>A piece of the script that writes lines and then either raises or goes on with a
  result: the lines written come first, also when it raises.\<close>

fun then_write ::
  "line list \<times> (py_error + 'a) \<Rightarrow> ('a \<Rightarrow> line list \<times> (py_error + 'b)) \<Rightarrow> line list \<times> (py_error + 'b)" where
  "then_write (ls, Inl e) f = (ls, Inl e)"
| "then_write (ls, Inr a) f = (case f a of (ls', r) \<Rightarrow> (ls @ ls', r))"

text \<open>\<^verbatim>\<open>ppp.old\<close>: for each reverting parameter the existing values of the years
  \<^verbatim>\<open>range(pyear, fyear + 1)\<close>.\<close>

fun old_years :: "pdata \<Rightarrow> int \<Rightarrow> string \<Rightarrow> int list \<Rightarrow> line list \<times> (py_error + unit)" where
  "old_years pdata syear pname [] = ([], Inr ())"
| "old_years pdata syear pname (year # rest) =
     (case map_of pdata pname of None \<Rightarrow> ([], Inl KeyError) | Some pdict \<Rightarrow>
      (case get (value_seq pdict) (year - syear) of Inl e \<Rightarrow> ([], Inl e) | Inr v \<Rightarrow>
         then_write ([Entry year v], Inr ()) (\<lambda>_. old_years pdata syear pname rest)))"

fun write_old :: "pdata \<Rightarrow> int \<Rightarrow> int \<Rightarrow> int \<Rightarrow> string list \<Rightarrow> line list \<times> (py_error + unit)" where
  "write_old pdata syear pyear fyear [] = ([], Inr ())"
| "write_old pdata syear pyear fyear (pname # rest) =
     then_write
       (then_write ([Header pname], Inr ()) (\<lambda>_. old_years pdata syear pname [pyear..fyear]))
       (\<lambda>_. write_old pdata syear pyear fyear rest)"

subsection \<open>Inflation factors\<close>

text \<open>\<^verbatim>\<open>final_ifactor\<close>: the product of \<open>1 + irate[year - syear]\<close> over
  \<^verbatim>\<open>range(pyear, fyear)\<close>, starting from \<open>1.0\<close>.\<close>

fun final_ifactor_loop :: "real list \<Rightarrow> int \<Rightarrow> int list \<Rightarrow> real \<Rightarrow> py_error + real" where
  "final_ifactor_loop irate syear [] f = Inr f"
| "final_ifactor_loop irate syear (year # rest) f =
     (case get irate (year - syear) of Inl e \<Rightarrow> Inl e
      | Inr r \<Rightarrow> final_ifactor_loop irate syear rest (f * (1 + r)))"

definition final_ifactor :: "real list \<Rightarrow> int \<Rightarrow> int \<Rightarrow> int \<Rightarrow> py_error + real" where
  "final_ifactor irate syear pyear fyear = final_ifactor_loop irate syear [pyear..fyear - 1] 1"

text \<open>\<^verbatim>\<open>ifactor\<close>: the dictionary of factors of the years \<^verbatim>\<open>range(byear, fyear)\<close>. Each
  round stores the running factor under the year and then multiplies it by
  \<open>1 + irate[year - syear]\<close>.\<close>

fun ifactor_loop ::
  "real list \<Rightarrow> int \<Rightarrow> int list \<Rightarrow> (int \<rightharpoonup> real) \<Rightarrow> real \<Rightarrow> py_error + (int \<rightharpoonup> real)" where
  "ifactor_loop irate syear [] d factor = Inr d"
| "ifactor_loop irate syear (year # rest) d factor =
     (case get irate (year - syear) of Inl e \<Rightarrow> Inl e
      | Inr r \<Rightarrow> ifactor_loop irate syear rest (d(year \<mapsto> factor)) (factor * (1 + r)))"

definition ifactor :: "real list \<Rightarrow> int \<Rightarrow> int \<Rightarrow> int \<Rightarrow> py_error + (int \<rightharpoonup> real)" where
  "ifactor irate syear byear fyear = ifactor_loop irate syear [byear..fyear - 1] Map.empty 1"

subsection \<open>Projection of one parameter\<close>

text \<open>The module variables that the projection loop assigns and may read again later:
  \<^verbatim>\<open>value\<close>, \<^verbatim>\<open>val_round\<close> and \<^verbatim>\<open>val\<close>. A name is not bound before its first
  assignment (\<open>None\<close>); reading an unbound name raises \<^verbatim>\<open>NameError\<close>.\<close>

record vars =
  var_value :: "pval option"
  var_val_round :: "real option"
  var_val :: "real option"

text \<open>Years after \<^verbatim>\<open>pyear\<close> up through \<^verbatim>\<open>byear\<close>: the historical value is written as it is.\<close>

fun hist_years ::
  "pdata \<Rightarrow> int \<Rightarrow> string \<Rightarrow> int list \<Rightarrow> vars \<Rightarrow> line list \<times> (py_error + vars)" where
  "hist_years pdata syear pname [] vs = ([], Inr vs)"
| "hist_years pdata syear pname (year # rest) vs =
     (case map_of pdata pname of None \<Rightarrow> ([], Inl KeyError) | Some pdict \<Rightarrow>
      (case get (value_seq pdict) (year - syear) of Inl e \<Rightarrow> ([], Inl e) | Inr v \<Rightarrow>
         then_write ([Entry year v], Inr (vs\<lparr>var_value := Some v\<rparr>))
           (hist_years pdata syear pname rest)))"

text \<open>The loop over the columns of a list-valued \<^verbatim>\<open>bvalue\<close> in an intermediate year. The
  list \<^verbatim>\<open>value\<close> under construction and \<^verbatim>\<open>val_round\<close> are carried along. With a
  \<^verbatim>\<open>'round_dir'\<close> that is neither \<^verbatim>\<open>'down'\<close> nor \<^verbatim>\<open>'nearest'\<close> nothing is assigned and
  \<^verbatim>\<open>val_round\<close> keeps what it held.\<close>

fun inter_cols ::
  "pdata \<Rightarrow> string \<Rightarrow> int \<Rightarrow> real list \<Rightarrow> (int \<rightharpoonup> real) \<Rightarrow> nat list \<Rightarrow> real list \<Rightarrow> real option
     \<Rightarrow> py_error + (real list \<times> real option)" where
  "inter_cols pdata pname year bvalue ifac [] acc vr = Inr (acc, vr)"
| "inter_cols pdata pname year bvalue ifac (idx # rest) acc vr =
     (case map_of pdata pname of None \<Rightarrow> Inl KeyError | Some pdict \<Rightarrow>
      (case (case round_dir pdict of
               Some d \<Rightarrow>
                 if d = ''down''
                 then map_sum id Some (round_down pdata pname idx year (Vector bvalue) (FDict ifac))
                 else if d = ''nearest''
                 then map_sum id Some (round_nearest pdata pname idx year (Vector bvalue) (FDict ifac))
                 else Inr vr
             | None \<Rightarrow>
                 (case get bvalue (int idx) of Inl e \<Rightarrow> Inl e | Inr x \<Rightarrow>
                  (case ifac year of None \<Rightarrow> Inl KeyError
                   | Some f \<Rightarrow> Inr (Some (min inf_cap (py_round (x * f) 2))))))
       of Inl e \<Rightarrow> Inl e
        | Inr vr' \<Rightarrow>
            (case vr' of None \<Rightarrow> Inl NameError
             | Some r \<Rightarrow> inter_cols pdata pname year bvalue ifac rest (acc @ [r]) vr')))"

text \<open>The value computed for one intermediate year, as an update of the module variables.
  The scalar branch with an unknown \<^verbatim>\<open>'round_dir'\<close> assigns nothing.\<close>

definition inter_value ::
  "pdata \<Rightarrow> string \<Rightarrow> int \<Rightarrow> pval \<Rightarrow> (int \<rightharpoonup> real) \<Rightarrow> vars \<Rightarrow> py_error + vars" where
  "inter_value pdata pname year bvalue ifac vs =
     (case bvalue of
        Vector bs \<Rightarrow>
          (case inter_cols pdata pname year bs ifac [0..<length bs] [] (var_val_round vs) of
             Inl e \<Rightarrow> Inl e
           | Inr (vl, vr) \<Rightarrow> Inr (vs\<lparr>var_value := Some (Vector vl), var_val_round := vr\<rparr>))
      | Scalar b \<Rightarrow>
          (case map_of pdata pname of None \<Rightarrow> Inl KeyError | Some pdict \<Rightarrow>
           (case round_dir pdict of
              Some d \<Rightarrow>
                if d = ''down''
                then (case round_down pdata pname 0 year (Scalar b) (FDict ifac) of
                        Inl e \<Rightarrow> Inl e | Inr r \<Rightarrow> Inr (vs\<lparr>var_value := Some (Scalar r)\<rparr>))
                else if d = ''nearest''
                then (case round_nearest pdata pname 0 year (Scalar b) (FDict ifac) of
                        Inl e \<Rightarrow> Inl e | Inr r \<Rightarrow> Inr (vs\<lparr>var_value := Some (Scalar r)\<rparr>))
                else Inr vs
            | None \<Rightarrow>
                (case ifac year of None \<Rightarrow> Inl KeyError
                 | Some f \<Rightarrow> Inr (vs\<lparr>var_value := Some (Scalar (min inf_cap (py_round (b * f) 2)))\<rparr>)))))"

text \<open>The loop over \<^verbatim>\<open>range(byear + 1, fyear)\<close>: each year writes the current \<^verbatim>\<open>value\<close>.\<close>

fun inter_years ::
  "pdata \<Rightarrow> string \<Rightarrow> pval \<Rightarrow> (int \<rightharpoonup> real) \<Rightarrow> int list \<Rightarrow> vars \<Rightarrow> line list \<times> (py_error + vars)" where
  "inter_years pdata pname bvalue ifac [] vs = ([], Inr vs)"
| "inter_years pdata pname bvalue ifac (year # rest) vs =
     (case inter_value pdata pname year bvalue ifac vs of Inl e \<Rightarrow> ([], Inl e)
      | Inr vs' \<Rightarrow>
          (case var_value vs' of None \<Rightarrow> ([], Inl NameError)
           | Some v \<Rightarrow>
               then_write ([Entry year v], Inr vs')
                 (inter_years pdata pname bvalue ifac rest)))"

text \<open>The final year: the same dispatch on \<^verbatim>\<open>pvalue\<close>, with the single number
  \<^verbatim>\<open>final_ifactor\<close> and \<^verbatim>\<open>round(_, 0)\<close>; the list branch assigns \<^verbatim>\<open>val\<close>. The rounding
  functions do not read \<^verbatim>\<open>year\<close> when the factor is a number.\<close>

fun final_cols ::
  "pdata \<Rightarrow> string \<Rightarrow> int \<Rightarrow> real list \<Rightarrow> real \<Rightarrow> nat list \<Rightarrow> real list \<Rightarrow> real option
     \<Rightarrow> py_error + (real list \<times> real option)" where
  "final_cols pdata pname year pvalue ffac [] acc vl = Inr (acc, vl)"
| "final_cols pdata pname year pvalue ffac (idx # rest) acc vl =
     (case map_of pdata pname of None \<Rightarrow> Inl KeyError | Some pdict \<Rightarrow>
      (case (case round_dir pdict of
               Some d \<Rightarrow>
                 if d = ''down''
                 then map_sum id Some (round_down pdata pname idx year (Vector pvalue) (FNum ffac))
                 else if d = ''nearest''
                 then map_sum id Some (round_nearest pdata pname idx year (Vector pvalue) (FNum ffac))
                 else Inr vl
             | None \<Rightarrow>
                 (case get pvalue (int idx) of Inl e \<Rightarrow> Inl e
                  | Inr x \<Rightarrow> Inr (Some (min inf_cap (py_round (x * ffac) 0)))))
       of Inl e \<Rightarrow> Inl e
        | Inr vl' \<Rightarrow>
            (case vl' of None \<Rightarrow> Inl NameError
             | Some r \<Rightarrow> final_cols pdata pname year pvalue ffac rest (acc @ [r]) vl')))"

definition final_value ::
  "pdata \<Rightarrow> string \<Rightarrow> int \<Rightarrow> pval \<Rightarrow> real \<Rightarrow> vars \<Rightarrow> py_error + vars" where
  "final_value pdata pname year pvalue ffac vs =
     (case pvalue of
        Vector ps \<Rightarrow>
          (case final_cols pdata pname year ps ffac [0..<length ps] [] (var_val vs) of
             Inl e \<Rightarrow> Inl e
           | Inr (vl, v) \<Rightarrow> Inr (vs\<lparr>var_value := Some (Vector vl), var_val := v\<rparr>))
      | Scalar p \<Rightarrow>
          (case map_of pdata pname of None \<Rightarrow> Inl KeyError | Some pdict \<Rightarrow>
           (case round_dir pdict of
              Some d \<Rightarrow>
                if d = ''down''
                then (case round_down pdata pname 0 year (Scalar p) (FNum ffac) of
                        Inl e \<Rightarrow> Inl e | Inr r \<Rightarrow> Inr (vs\<lparr>var_value := Some (Scalar r)\<rparr>))
                else if d = ''nearest''
                then (case round_nearest pdata pname 0 year (Scalar p) (FNum ffac) of
                        Inl e \<Rightarrow> Inl e | Inr r \<Rightarrow> Inr (vs\<lparr>var_value := Some (Scalar r)\<rparr>))
                else Inr vs
            | None \<Rightarrow> Inr (vs\<lparr>var_value := Some (Scalar (min inf_cap (py_round (p * ffac) 0)))\<rparr>))))"

text \<open>Reading \<^verbatim>\<open>pdata[pname]['value'][year - syear]\<close>.\<close>

definition value_at :: "pdata \<Rightarrow> int \<Rightarrow> string \<Rightarrow> int \<Rightarrow> py_error + pval" where
  "value_at pdata syear pname year =
     (case map_of pdata pname of None \<Rightarrow> Inl KeyError
      | Some pdict \<Rightarrow> get (value_seq pdict) (year - syear))"

text \<open>The final-year block: \<^verbatim>\<open>pvalue\<close> is the value of the prior year \<^verbatim>\<open>pyear\<close>, and the
  line of \<^verbatim>\<open>fyear\<close> is written with the current \<^verbatim>\<open>value\<close>.\<close>

definition final_year ::
  "pdata \<Rightarrow> int \<Rightarrow> string \<Rightarrow> int \<Rightarrow> int \<Rightarrow> real \<Rightarrow> vars \<Rightarrow> line list \<times> (py_error + vars)" where
  "final_year pdata syear pname pyear fyear ffac vs =
     (case value_at pdata syear pname pyear of Inl e \<Rightarrow> ([], Inl e)
      | Inr pvalue \<Rightarrow>
          (case final_value pdata pname (fyear - 1) pvalue ffac vs of Inl e \<Rightarrow> ([], Inl e)
           | Inr vs' \<Rightarrow>
               (case var_value vs' of None \<Rightarrow> ([], Inl NameError)
                | Some v \<Rightarrow> ([Entry fyear v], Inr vs'))))"

text \<open>The body of the loop over \<^verbatim>\<open>reverting_params\<close> that writes \<^verbatim>\<open>ppp.new\<close>.\<close>

definition project_param ::
  "pdata \<Rightarrow> int \<Rightarrow> int \<Rightarrow> int \<Rightarrow> int \<Rightarrow> (int \<rightharpoonup> real) \<Rightarrow> real \<Rightarrow> string \<Rightarrow> vars
     \<Rightarrow> line list \<times> (py_error + vars)" where
  "project_param pdata syear pyear byear fyear ifac ffac pname vs0 =
     then_write ([Header pname], Inr vs0) (\<lambda>vs.
     then_write
       (case value_at pdata syear pname pyear of Inl e \<Rightarrow> ([], Inl e)
        | Inr v \<Rightarrow> ([Entry pyear v], Inr (vs\<lparr>var_value := Some v\<rparr>))) (\<lambda>vs.
     then_write (hist_years pdata syear pname [pyear + 1..byear] vs) (\<lambda>vs.
     then_write
       (case value_at pdata syear pname byear of Inl e \<Rightarrow> ([], Inl e)
        | Inr bvalue \<Rightarrow> inter_years pdata pname bvalue ifac [byear + 1..fyear - 1] vs)
       (final_year pdata syear pname pyear fyear ffac))))"

fun project_all ::
  "pdata \<Rightarrow> int \<Rightarrow> int \<Rightarrow> int \<Rightarrow> int \<Rightarrow> (int \<rightharpoonup> real) \<Rightarrow> real \<Rightarrow> string list \<Rightarrow> vars
     \<Rightarrow> line list \<times> (py_error + vars)" where
  "project_all pdata syear pyear byear fyear ifac ffac [] vs = ([], Inr vs)"
| "project_all pdata syear pyear byear fyear ifac ffac (pname # rest) vs =
     then_write (project_param pdata syear pyear byear fyear ifac ffac pname vs)
       (project_all pdata syear pyear byear fyear ifac ffac rest)"

subsection \<open>The script\<close>

text \<open>The year constants; only \<^verbatim>\<open>byear\<close> varies, and \<^verbatim>\<open>syear\<close> is
  \<^verbatim>\<open>Policy.JSON_START_YEAR\<close>. The script asserts \<open>pyear < byear < fyear\<close>.\<close>

definition pyear :: int where
  "pyear = 2017"

definition fyear :: int where
  "fyear = 2026"

text \<open>What a run leaves behind: the count printed on standard output and the two files
  (\<open>None\<close>: the file was never opened).\<close>

record outputs =
  stdout :: "nat list"
  ppp_old :: "line list option"
  ppp_new :: "line list option"

text \<open>The whole script, from the table \<^verbatim>\<open>pdata\<close> and the rates
  \<^verbatim>\<open>clp.inflation_rates()\<close>. The result is the outputs and the exception that ended the
  run, if any. \<^verbatim>\<open>ppp.old\<close> is written and closed before the factors are built.\<close>

definition main :: "pdata \<Rightarrow> real list \<Rightarrow> int \<Rightarrow> int \<Rightarrow> outputs \<times> py_error option" where
  "main pdata irate syear byear =
     (let out0 = \<lparr>stdout = [], ppp_old = None, ppp_new = None\<rparr> in
      if \<not> (pyear < byear \<and> byear < fyear) then (out0, Some AssertionError)
      else
        (case reverting_params pdata fyear of Inl e \<Rightarrow> (out0, Some e)
         | Inr rp \<Rightarrow>
             (let out1 = out0\<lparr>stdout := [length rp]\<rparr> in
              (case write_old pdata syear pyear fyear rp of
                 (ls, Inl e) \<Rightarrow> (out1\<lparr>ppp_old := Some ls\<rparr>, Some e)
               | (ls, Inr _) \<Rightarrow>
                   (let out2 = out1\<lparr>ppp_old := Some ls\<rparr> in
                    (case final_ifactor irate syear pyear fyear of Inl e \<Rightarrow> (out2, Some e)
                     | Inr ffac \<Rightarrow>
                         (case ifactor irate syear byear fyear of Inl e \<Rightarrow> (out2, Some e)
                          | Inr ifac \<Rightarrow>
                              (case project_all pdata syear pyear byear fyear ifac ffac rp
                                      \<lparr>var_value = None, var_val_round = None, var_val = None\<rparr> of
                                 (ls', Inl e) \<Rightarrow> (out2\<lparr>ppp_new := Some ls'\<rparr>, Some e)
                               | (ls', Inr _) \<Rightarrow> (out2\<lparr>ppp_new := Some ls'\<rparr>, None)))))))))"

subsection \<open>Notions used in the statements\<close>

text \<open>The condition of the eligibility filter on a parameter name: the record is indexed,
  has the final year among its \<^verbatim>\<open>value_yrs\<close>, and the name is not in the skip list.\<close>

definition eligible :: "pdata \<Rightarrow> int \<Rightarrow> string \<Rightarrow> bool" where
  "eligible pdata fyr pname =
     (case map_of pdata pname of None \<Rightarrow> False
      | Some pdict \<Rightarrow> indexed pdict \<and> fyr \<in> set (value_yrs pdict) \<and> pname \<notin> set skip_list)"

text \<open>The parameter names of the block headers in a file, and the year of a line.\<close>

fun header_names :: "line list \<Rightarrow> string list" where
  "header_names [] = []"
| "header_names (Header n # ls) = n # header_names ls"
| "header_names (Entry y v # ls) = header_names ls"

fun line_year :: "line \<Rightarrow> int option" where
  "line_year (Header n) = None"
| "line_year (Entry y v) = Some y"





subsection \<open>Example inputs\<close>



text \<open>A two-column parameter with one granularity per column, and one with a single
  granularity for both columns.\<close>

definition two_cols :: param where
  "two_cols = \<lparr>indexed = True, value_seq = [Vector [1050, 2075]], value_yrs = [2026],
                round_to = [100, 50], round_dir = Some ''down''\<rparr>"

definition one_step :: param where
  "one_step = \<lparr>indexed = True, value_seq = [Vector [1050, 2075]], value_yrs = [2026],
                round_to = [100], round_dir = Some ''down''\<rparr>"

text \<open>Rates for the years 2013 to 2020: 2 percent in 2019 and 3 percent in 2020.\<close>

definition rates8 :: "real list" where
  "rates8 = [0, 0, 0, 0, 0, 0, 2 / 100, 3 / 100]"

text \<open>A table of three parameters, of which one is eligible, with rates for the years
  2013 to 2025 (10 percent in 2017 and in 2020), and the two files a run writes for it
  with \<open>syear = 2013\<close> and \<open>byear = 2019\<close>.\<close>

definition rates13 :: "real list" where
  "rates13 = [0, 0, 0, 0, 1 / 10, 0, 0, 1 / 10, 0, 0, 0, 0, 0]"

definition std :: param where
  "std = \<lparr>indexed = True,
           value_seq = map Scalar [6100, 6200, 6300, 6300, 6350, 12000, 12200, 12400, 12600,
                                   12800, 13000, 13200, 13400, 7000],
           value_yrs = [2013, 2014, 2015, 2016, 2017, 2018, 2019, 2026],
           round_to = [50], round_dir = Some ''down''\<rparr>"

definition table3 :: pdata where
  "table3 = [(''_STD'', std), (''_II_brk7'', std), (''_ALD'', std\<lparr>indexed := False\<rparr>)]"

definition old_lines :: "line list" where
  "old_lines = [Header ''_STD'', Entry 2017 (Scalar 6350),
         Entry 2018 (Scalar 12000), Entry 2019 (Scalar 12200),
         Entry 2020 (Scalar 12400), Entry 2021 (Scalar 12600),
         Entry 2022 (Scalar 12800), Entry 2023 (Scalar 13000),
         Entry 2024 (Scalar 13200), Entry 2025 (Scalar 13400),
         Entry 2026 (Scalar 7000)]"

definition new_lines :: "line list" where
  "new_lines = [Header ''_STD'', Entry 2017 (Scalar 6350),
         Entry 2018 (Scalar 12000), Entry 2019 (Scalar 12200),
         Entry 2020 (Scalar 12200), Entry 2021 (Scalar 13400),
         Entry 2022 (Scalar 13400), Entry 2023 (Scalar 13400),
         Entry 2024 (Scalar 13400), Entry 2025 (Scalar 13400),
         Entry 2026 (Scalar 7650)]"

definition ifactor7 :: "int \<rightharpoonup> real" where
  "ifactor7 = [2019 \<mapsto> 1, 2020 \<mapsto> 1, 2021 \<mapsto> 11 / 10, 2022 \<mapsto> 11 / 10, 2023 \<mapsto> 11 / 10,
               2024 \<mapsto> 11 / 10, 2025 \<mapsto> 11 / 10]"

text \<open>The eligible parameter of the example with a rounding direction that the script
  does not know.\<close>

definition std_up :: param where
  "std_up = std\<lparr>round_dir := Some ''up''\<rparr>"


section \<open>Properties\<close>

subsection \<open>List and remainder facts\<close>

lemma get_0_Cons: "get (g # gs) 0 = Inr g"
  by (simp add: get_def)

lemma get_nat: "get xs (int i) = (if i < length xs then Inr (xs ! i) else Inl IndexError)"
  by (simp add: get_def)



subsection \<open>The rounding functions on a scalar\<close>












subsection \<open>The rounding functions on a column\<close>

lemma round_down_vector_eq:
  assumes "map_of pdata pname = Some pdict" "idx < length vs" "idx < length (round_to pdict)"
  shows "round_down pdata pname idx year (Vector vs) fa =
         round_down [(pname, pdict\<lparr>round_to := [round_to pdict ! idx]\<rparr>)] pname 0 year
           (Scalar (vs ! idx)) fa"
  using assms
  by (simp add: round_down_def get_0_Cons get_nat
      split: sum.splits factor_arg.splits option.splits)

lemma round_nearest_vector_eq:
  assumes "map_of pdata pname = Some pdict" "idx < length vs" "idx < length (round_to pdict)"
  shows "round_nearest pdata pname idx year (Vector vs) fa =
         round_nearest [(pname, pdict\<lparr>round_to := [round_to pdict ! idx]\<rparr>)] pname 0 year
           (Scalar (vs ! idx)) fa"
  using assms
  by (simp add: round_nearest_def get_0_Cons get_nat Let_def
      split: sum.splits factor_arg.splits option.splits)

lemma round_vector_short:
  assumes "map_of pdata pname = Some pdict" "idx < length vs" "length (round_to pdict) \<le> idx"
    and "fa = FNum f \<or> (\<exists>d. fa = FDict d \<and> d year = Some f)"
  shows "round_down pdata pname idx year (Vector vs) fa = Inl IndexError"
    and "round_nearest pdata pname idx year (Vector vs) fa = Inl IndexError"
  using assms by (auto simp add: round_down_def round_nearest_def get_nat)

text \<open>
  C5 (as amended). On column \<open>idx\<close> of a list value both rounding functions do what they do
  on the scalar \<open>value[idx]\<close> with the single granularity \<open>round_to[idx]\<close>, provided
  \<open>round_to\<close> has an entry at \<open>idx\<close>. Where it has none, and so for every column
  \<open>idx > 0\<close> of a parameter whose \<open>round_to\<close> has length 1, the call raises
  \<^verbatim>\<open>IndexError\<close> (the factor is a number or a dictionary with an entry for the year).
\<close>

theorem round_columnwise:
  assumes "map_of pdata pname = Some pdict" "idx < length vs"
  shows "(idx < length (round_to pdict) \<longrightarrow>
            round_down pdata pname idx year (Vector vs) fa =
              round_down [(pname, pdict\<lparr>round_to := [round_to pdict ! idx]\<rparr>)] pname 0 year
                (Scalar (vs ! idx)) fa
          \<and> round_nearest pdata pname idx year (Vector vs) fa =
              round_nearest [(pname, pdict\<lparr>round_to := [round_to pdict ! idx]\<rparr>)] pname 0 year
                (Scalar (vs ! idx)) fa)
       \<and> (length (round_to pdict) \<le> idx
            \<and> (fa = FNum f \<or> (\<exists>d. fa = FDict d \<and> d year = Some f)) \<longrightarrow>
            round_down pdata pname idx year (Vector vs) fa = Inl IndexError
          \<and> round_nearest pdata pname idx year (Vector vs) fa = Inl IndexError)"
  using round_down_vector_eq [OF assms] round_nearest_vector_eq [OF assms]
    round_vector_short [OF assms]
  by blast

theorem round_columnwise_witness:
  "map_of [(''p'', two_cols)] ''p'' = Some two_cols \<and> (1::nat) < length [1050, 2075 :: real]
   \<and> 1 < length (round_to two_cols)
   \<and> round_down [(''p'', two_cols)] ''p'' 1 2020 (Vector [1050, 2075]) (FNum 1) = Inr 2050
   \<and> round_nearest [(''p'', two_cols)] ''p'' 1 2020 (Vector [1050, 2075]) (FNum 1) = Inr 2100
   \<and> map_of [(''p'', one_step)] ''p'' = Some one_step \<and> length (round_to one_step) \<le> 1
   \<and> round_down [(''p'', one_step)] ''p'' 1 2020 (Vector [1050, 2075]) (FNum 1) = Inl IndexError"
proof -
  have h: "map_of [(''p'', two_cols)] ''p'' = Some two_cols" "(1::nat) < length [1050, 2075 :: real]"
    by simp_all
  have k: "map_of [(''p'', one_step)] ''p'' = Some one_step"
    by simp
  have l: "1 < length (round_to two_cols)" "length (round_to one_step) \<le> 1"
    by (simp_all add: two_cols_def one_step_def)
  have s: "round_down [(''p'', two_cols\<lparr>round_to := [round_to two_cols ! 1]\<rparr>)] ''p'' 0 2020
             (Scalar ([1050, 2075] ! 1)) (FNum 1) = Inr 2050"
    "round_nearest [(''p'', two_cols\<lparr>round_to := [round_to two_cols ! 1]\<rparr>)] ''p'' 0 2020
             (Scalar ([1050, 2075] ! 1)) (FNum 1) = Inr 2100"
    by (simp_all add: round_down_def round_nearest_def two_cols_def get_0_Cons Let_def
        py_mod_def inf_cap_def)
  from round_columnwise [OF h, of 2020 "FNum 1" 1]
    round_columnwise [OF k h(2), of 2020 "FNum 1" 1] l s
  show ?thesis using h k by simp
qed

text \<open>
  The claim as stated fails: with \<open>round_to = [100]\<close> and two columns, the second column is
  not rounded with 100; the call raises \<^verbatim>\<open>IndexError\<close>.
\<close>

theorem round_single_granularity_fails:
  "length (round_to one_step) = 1
   \<and> round_down [(''p'', one_step)] ''p'' 1 2020 (Vector [1050, 2075]) (FNum 1) = Inl IndexError
   \<and> round_nearest [(''p'', one_step)] ''p'' 1 2020 (Vector [1050, 2075]) (FNum 1)
       = Inl IndexError"
  by (simp add: round_down_def round_nearest_def one_step_def get_def)

subsection \<open>Inflation factors\<close>

lemma get_ok: "0 \<le> i \<Longrightarrow> i < int (length xs) \<Longrightarrow> get xs i = Inr (xs ! nat i)"
  by (simp add: get_def)



lemma ifactor_loop_total:
  "\<forall>y\<in>set ys. 0 \<le> y - syear \<and> y - syear < int (length irate) \<Longrightarrow>
   \<exists>m. ifactor_loop irate syear ys d f = Inr m"
  by (induction ys arbitrary: d f) (simp_all add: get_ok)

lemma ifactor_loop_other:
  "ifactor_loop irate syear ys d f = Inr m \<Longrightarrow> y \<notin> set ys \<Longrightarrow> m y = d y"
  by (induction ys arbitrary: d f) (auto split: sum.splits)

lemma ifactor_loop_dom:
  "ifactor_loop irate syear ys d f = Inr m \<Longrightarrow> dom m = dom d \<union> set ys"
  by (induction ys arbitrary: d f) (auto split: sum.splits)

lemma ifactor_loop_first:
  assumes "ifactor_loop irate syear [a..b] d f = Inr m" "a \<le> b"
  shows "m a = Some f"
proof -
  from assms(2) have u: "[a..b] = a # [a + 1..b]" by (rule upto_rec1)
  from assms(1) obtain r where
    "ifactor_loop irate syear [a + 1..b] (d(a \<mapsto> f)) (f * (1 + r)) = Inr m"
    unfolding u by (auto split: sum.splits)
  from ifactor_loop_other [OF this, of a] show ?thesis by simp
qed

lemma ifactor_loop_step:
  assumes "ifactor_loop irate syear [a..b] d f = Inr m" "a \<le> y" "y + 1 \<le> b"
  shows "\<exists>r fy. get irate (y - syear) = Inr r \<and> m y = Some fy \<and> m (y + 1) = Some (fy * (1 + r))"
  using assms
proof (induction "nat (b - a)" arbitrary: a d f)
  case 0
  then show ?case by simp
next
  case (Suc n)
  from Suc.prems have ab: "a \<le> b" by simp
  then have u: "[a..b] = a # [a + 1..b]" by (rule upto_rec1)
  from Suc.prems(1) obtain r where r: "get irate (a - syear) = Inr r"
    and rest: "ifactor_loop irate syear [a + 1..b] (d(a \<mapsto> f)) (f * (1 + r)) = Inr m"
    unfolding u by (auto split: sum.splits)
  show ?case
  proof (cases "y = a")
    case True
    from ifactor_loop_first [OF Suc.prems(1) ab] have "m a = Some f" .
    moreover from Suc.prems True have "a + 1 \<le> b" by simp
    from ifactor_loop_first [OF rest this] have "m (a + 1) = Some (f * (1 + r))" .
    ultimately show ?thesis using r True by simp
  next
    case False
    with Suc.prems have "a + 1 \<le> y" by simp
    moreover from Suc.hyps(2) have "n = nat (b - (a + 1))" by simp
    ultimately show ?thesis using Suc.hyps(1) rest Suc.prems(3) by blast
  qed
qed

text \<open>
  C3 (as amended). When the rates cover the window (\<open>syear \<le> byear < fyear\<close> and
  \<open>irate\<close> has an entry for every year before \<open>fyear\<close>), the dictionary \<^verbatim>\<open>ifactor\<close> is
  built, its keys are the years of \<open>[byear, fyear)\<close>, the factor of \<open>byear\<close> is exactly 1,
  and for every year \<open>y\<close> with \<open>y\<close> and \<open>y + 1\<close> both in the window the factor of \<open>y + 1\<close>
  is the factor of \<open>y\<close> times \<open>1 + irate[y - syear]\<close>.
\<close>

theorem ifactor_compounds:
  assumes "syear \<le> byear" "byear < fyr" "fyr - syear \<le> int (length irate)"
  shows "\<exists>m. ifactor irate syear byear fyr = Inr m
           \<and> dom m = {byear..fyr - 1}
           \<and> m byear = Some 1
           \<and> (\<forall>y. byear \<le> y \<and> y + 1 < fyr \<longrightarrow>
                 (\<exists>fy. m y = Some fy
                    \<and> m (y + 1) = Some (fy * (1 + irate ! nat (y - syear)))))"
proof -
  have "\<forall>y\<in>set [byear..fyr - 1]. 0 \<le> y - syear \<and> y - syear < int (length irate)"
    using assms by auto
  from ifactor_loop_total [OF this, of Map.empty 1]
  obtain m where m: "ifactor_loop irate syear [byear..fyr - 1] Map.empty 1 = Inr m"
    by blast
  from assms(2) have le: "byear \<le> fyr - 1" by simp
  have "dom m = {byear..fyr - 1}"
    using ifactor_loop_dom [OF m] by simp
  moreover have "m byear = Some 1"
    by (rule ifactor_loop_first [OF m le])
  moreover have "\<exists>fy. m y = Some fy \<and> m (y + 1) = Some (fy * (1 + irate ! nat (y - syear)))"
    if y: "byear \<le> y \<and> y + 1 < fyr" for y
  proof -
    from y have "y + 1 \<le> fyr - 1" by simp
    from ifactor_loop_step [OF m _ this] y
    obtain r fy where r: "get irate (y - syear) = Inr r" and "m y = Some fy"
      "m (y + 1) = Some (fy * (1 + r))"
      by blast
    moreover from y assms have "get irate (y - syear) = Inr (irate ! nat (y - syear))"
      by (intro get_ok) simp_all
    ultimately show ?thesis by simp
  qed
  ultimately show ?thesis using m by (auto simp add: ifactor_def)
qed

theorem ifactor_compounds_witness:
  "(2013::int) \<le> 2019 \<and> (2019::int) < 2021 \<and> (2021::int) - 2013 \<le> int (length rates8)
   \<and> (2019::int) \<le> 2019 \<and> (2019::int) + 1 < 2021
   \<and> (\<exists>m. ifactor rates8 2013 2019 2021 = Inr m \<and> m 2019 = Some 1
          \<and> m 2020 = Some (102 / 100))"
proof -
  have h: "(2013::int) \<le> 2019" "(2019::int) < 2021" "(2021::int) - 2013 \<le> int (length rates8)"
    by (simp_all add: rates8_def)
  from ifactor_compounds [OF h]
  obtain m where m: "ifactor rates8 2013 2019 2021 = Inr m" "m 2019 = Some 1"
    and s: "\<forall>y. 2019 \<le> y \<and> y + 1 < 2021 \<longrightarrow>
              (\<exists>fy. m y = Some fy \<and> m (y + 1) = Some (fy * (1 + rates8 ! nat (y - 2013))))"
    by blast
  from s [rule_format, of 2019] m(2) have "m 2020 = Some (102 / 100)"
    by (simp add: rates8_def)
  with m h show ?thesis by simp
qed

text \<open>
  The claim as stated lets \<open>y\<close> range over the whole window and fails at its last year:
  in the window \<open>[2019, 2021)\<close> the year 2020 has a factor, and 2021 has none.
\<close>

theorem ifactor_no_entry_after_window:
  "ifactor rates8 2013 2019 2021 = Inr [2019 \<mapsto> 1, 2020 \<mapsto> 102 / 100]
   \<and> [2019 \<mapsto> 1, 2020 \<mapsto> 102 / 100 :: real] (2021 :: int) = None"
  by (simp add: ifactor_def rates8_def get_def)

subsection \<open>Sequencing of writes\<close>

declare then_write.simps [simp del]

lemma then_write_fst:
  "fst (then_write x f) = fst x @ (case snd x of Inl e \<Rightarrow> [] | Inr a \<Rightarrow> fst (f a))"
  by (cases x; cases "snd x") (auto simp add: then_write.simps split: prod.splits)

lemma then_write_snd:
  "snd (then_write x f) = (case snd x of Inl e \<Rightarrow> Inl e | Inr a \<Rightarrow> snd (f a))"
  by (cases x; cases "snd x") (auto simp add: then_write.simps split: prod.splits)

lemma header_names_append: "header_names (xs @ ys) = header_names xs @ header_names ys"
  by (induction xs rule: header_names.induct) simp_all

lemma header_names_mem: "Header n \<in> set ls \<Longrightarrow> n \<in> set (header_names ls)"
  by (induction ls rule: header_names.induct) auto

subsection \<open>The example run\<close>

lemma ex_reverting: "reverting_params table3 2026 = Inr [''_STD'']"
  by (simp add: reverting_params_def table3_def std_def skip_list_def)

lemma ex_old: "write_old table3 2013 2017 2026 [''_STD''] = (old_lines, Inr ())"
  by (simp add: table3_def std_def get_def old_lines_def then_write.simps)

lemma ex_ffac: "final_ifactor rates13 2013 2017 2026 = Inr (121 / 100)"
  by (simp add: final_ifactor_def rates13_def get_def)

lemma ex_ifac: "ifactor rates13 2013 2019 2026 = Inr ifactor7"
  by (simp add: ifactor_def rates13_def get_def ifactor7_def)

lemma ex_project:
  "project_all table3 2013 2017 2019 2026 ifactor7 (121 / 100) [''_STD'']
     \<lparr>var_value = None, var_val_round = None, var_val = None\<rparr>
   = (new_lines, Inr \<lparr>var_value = Some (Scalar 7650), var_val_round = None, var_val = None\<rparr>)"
  by (simp add: project_param_def final_year_def value_at_def table3_def std_def get_def
      inter_value_def final_value_def round_down_def inf_cap_def new_lines_def ifactor7_def
      then_write.simps)

lemma ex_main:
  "main table3 rates13 2013 2019
   = (\<lparr>stdout = [1], ppp_old = Some old_lines, ppp_new = Some new_lines\<rparr>, None)"
  by (simp add: main_def pyear_def fyear_def ex_reverting ex_old ex_ffac ex_ifac ex_project
      del: write_old.simps project_all.simps)

subsection \<open>Eligible parameters\<close>

lemma eligible_iff:
  "eligible pdata fyr n \<longleftrightarrow>
     (\<exists>pdict. map_of pdata n = Some pdict \<and> indexed pdict \<and> fyr \<in> set (value_yrs pdict)
        \<and> n \<notin> set skip_list)"
  by (simp add: eligible_def split: option.splits)

lemma eligible_key: "eligible pdata fyr n \<Longrightarrow> n \<in> fst ` set pdata"
  by (auto simp add: eligible_def split: option.splits dest: map_of_SomeD intro: rev_image_eqI)

lemma reverting_loop_eq:
  "set names \<subseteq> fst ` set pdata \<Longrightarrow>
   reverting_loop pdata fyr names acc = Inr (acc @ filter (eligible pdata fyr) names)"
proof (induction names arbitrary: acc)
  case Nil
  then show ?case by simp
next
  case (Cons n names)
  then obtain pdict where "map_of pdata n = Some pdict"
    by (metis domD dom_map_of_conv_image_fst list.set_intros(1) subsetD)
  with Cons show ?case by (simp add: eligible_def)
qed

lemma reverting_params_eq:
  "reverting_params pdata fyr = Inr (filter (eligible pdata fyr) (sort (map fst pdata)))"
  by (simp add: reverting_params_def reverting_loop_eq)

lemma reverting_params_sorted_set:
  assumes "distinct (map fst pdata)"
  shows "filter (eligible pdata fyr) (sort (map fst pdata))
         = sorted_list_of_set {n. eligible pdata fyr n}"
proof -
  have "{n. eligible pdata fyr n} = set (filter (eligible pdata fyr) (map fst pdata))"
    using eligible_key by auto
  then have "sorted_list_of_set {n. eligible pdata fyr n}
      = sort (remdups (filter (eligible pdata fyr) (map fst pdata)))"
    by (simp only: sorted_list_of_set_sort_remdups)
  also have "\<dots> = sort (filter (eligible pdata fyr) (map fst pdata))"
    using assms by (simp add: distinct_remdups_id)
  also have "\<dots> = filter (eligible pdata fyr) (sort (map fst pdata))"
    by (simp add: filter_sort)
  finally show ?thesis by simp
qed

lemma hist_years_headers: "header_names (fst (hist_years pdata syear pname ys vs)) = []"
  by (induction ys arbitrary: vs)
     (simp_all add: then_write_fst header_names_append split: option.splits sum.splits)

lemma old_years_headers: "header_names (fst (old_years pdata syear pname ys)) = []"
  by (induction ys)
     (simp_all add: then_write_fst header_names_append split: option.splits sum.splits)

lemma inter_years_headers: "header_names (fst (inter_years pdata pname bvalue ifac ys vs)) = []"
  by (induction ys arbitrary: vs)
     (simp_all add: then_write_fst header_names_append split: option.splits sum.splits)

lemma final_year_years:
  "l \<in> set (fst (final_year pdata syear pname pyr fyr ffac vs)) \<Longrightarrow> line_year l = Some fyr"
  by (auto simp add: final_year_def split: sum.splits option.splits)

lemma final_year_headers:
  "header_names (fst (final_year pdata syear pname pyr fyr ffac vs)) = []"
  by (simp add: final_year_def split: sum.splits option.splits)

lemma project_param_headers:
  "header_names (fst (project_param pdata syear pyr byear fyr ifac ffac pname vs)) = [pname]"
  by (simp add: project_param_def then_write_fst header_names_append hist_years_headers
      inter_years_headers final_year_headers split: option.splits sum.splits)

lemma project_all_headers:
  "set (header_names (fst (project_all pdata syear pyr byear fyr ifac ffac names vs)))
   \<subseteq> set names"
  by (induction names arbitrary: vs)
     (auto simp add: then_write_fst header_names_append project_param_headers split: sum.splits)

lemma write_old_headers:
  "set (header_names (fst (write_old pdata syear pyr fyr names))) \<subseteq> set names"
  by (induction names)
     (auto simp add: then_write_fst header_names_append old_years_headers split: sum.splits)

text \<open>What the two files of a run are, when they exist.\<close>

lemma main_old:
  assumes "main pdata irate syear byear = (out, err)" "ppp_old out = Some ls"
  shows "pyear < byear \<and> byear < fyear
         \<and> ls = fst (write_old pdata syear pyear fyear
                       (filter (eligible pdata fyear) (sort (map fst pdata))))"
  using assms
  by (auto simp add: main_def reverting_params_eq Let_def
      split: if_splits sum.splits prod.splits)

lemma main_new:
  assumes "main pdata irate syear byear = (out, err)" "ppp_new out = Some ls"
  shows "pyear < byear \<and> byear < fyear
         \<and> (\<exists>ifac ffac.
               ifactor irate syear byear fyear = Inr ifac
             \<and> final_ifactor irate syear pyear fyear = Inr ffac
             \<and> ls = fst (project_all pdata syear pyear byear fyear ifac ffac
                           (filter (eligible pdata fyear) (sort (map fst pdata)))
                           \<lparr>var_value = None, var_val_round = None, var_val = None\<rparr>))"
  using assms
  by (auto simp add: main_def reverting_params_eq Let_def
      split: if_splits sum.splits prod.splits)

text \<open>
  C7. For a table with each key once, \<^verbatim>\<open>reverting_params\<close> is exactly the sorted list of
  the names whose record is indexed, has the final year in \<^verbatim>\<open>value_yrs\<close>, and which are not
  in the skip list; and every block header in \<^verbatim>\<open>ppp.old\<close> or \<^verbatim>\<open>ppp.new\<close> is such a name,
  so a parameter that is not indexed or is in the skip list never appears in the output.
\<close>

theorem eligibility_exact:
  assumes "distinct (map fst pdata)"
  shows "reverting_params pdata fyr =
           Inr (sorted_list_of_set
                  {n. \<exists>pdict. map_of pdata n = Some pdict \<and> indexed pdict
                        \<and> fyr \<in> set (value_yrs pdict) \<and> n \<notin> set skip_list})
       \<and> (\<forall>out err ls n.
             main pdata irate syear byear = (out, err)
             \<and> (ppp_old out = Some ls \<or> ppp_new out = Some ls) \<and> Header n \<in> set ls
             \<longrightarrow> (\<exists>pdict. map_of pdata n = Some pdict \<and> indexed pdict
                     \<and> fyear \<in> set (value_yrs pdict) \<and> n \<notin> set skip_list))"
proof (intro conjI allI impI)
  have "{n. \<exists>pdict. map_of pdata n = Some pdict \<and> indexed pdict
              \<and> fyr \<in> set (value_yrs pdict) \<and> n \<notin> set skip_list}
        = {n. eligible pdata fyr n}"
    by (simp add: eligible_iff)
  then show "reverting_params pdata fyr =
           Inr (sorted_list_of_set
                  {n. \<exists>pdict. map_of pdata n = Some pdict \<and> indexed pdict
                        \<and> fyr \<in> set (value_yrs pdict) \<and> n \<notin> set skip_list})"
    using reverting_params_sorted_set [OF assms, of fyr]
    by (simp add: reverting_params_eq)
next
  fix out err ls n
  assume a: "main pdata irate syear byear = (out, err)
             \<and> (ppp_old out = Some ls \<or> ppp_new out = Some ls) \<and> Header n \<in> set ls"
  then have n: "n \<in> set (header_names ls)"
    by (simp add: header_names_mem)
  from a have "set (header_names ls)
      \<subseteq> set (filter (eligible pdata fyear) (sort (map fst pdata)))"
    using main_old [of pdata irate syear byear out err ls]
      main_new [of pdata irate syear byear out err ls]
      write_old_headers project_all_headers
    by blast
  with n have "eligible pdata fyear n" by auto
  then show "\<exists>pdict. map_of pdata n = Some pdict \<and> indexed pdict
                     \<and> fyear \<in> set (value_yrs pdict) \<and> n \<notin> set skip_list"
    by (simp add: eligible_iff)
qed

theorem eligibility_exact_witness:
  "distinct (map fst table3)
   \<and> reverting_params table3 2026 = Inr [''_STD'']
   \<and> main table3 rates13 2013 2019
       = (\<lparr>stdout = [1], ppp_old = Some old_lines, ppp_new = Some new_lines\<rparr>, None)
   \<and> Header ''_STD'' \<in> set new_lines
   \<and> (\<exists>pdict. map_of table3 ''_STD'' = Some pdict \<and> indexed pdict
         \<and> fyear \<in> set (value_yrs pdict) \<and> ''_STD'' \<notin> set skip_list)"
proof -
  have d: "distinct (map fst table3)"
    by (simp add: table3_def)
  have h: "Header ''_STD'' \<in> set new_lines"
    by (simp add: new_lines_def)
  from eligibility_exact [OF d, of 2026 rates13 2013 2019, THEN conjunct2, rule_format,
      of "\<lparr>stdout = [1], ppp_old = Some old_lines, ppp_new = Some new_lines\<rparr>" None
        new_lines "''_STD''"]
    ex_main h
  have "\<exists>pdict. map_of table3 ''_STD'' = Some pdict \<and> indexed pdict
         \<and> fyear \<in> set (value_yrs pdict) \<and> ''_STD'' \<notin> set skip_list"
    by simp
  with d h ex_main ex_reverting show ?thesis by simp
qed

subsection \<open>A rate series that is too short\<close>










subsection \<open>A rounding direction the script does not know\<close>

lemma hist_years_fst:
  "\<forall>y\<in>set ys. \<exists>v. value_at pdata syear pname y = Inr v \<Longrightarrow>
   fst (hist_years pdata syear pname ys vs)
     = map (\<lambda>y. Entry y (projr (value_at pdata syear pname y))) ys"
  by (induction ys arbitrary: vs)
     (auto simp add: then_write_fst value_at_def split: option.splits sum.splits)

lemma hist_years_snd:
  "\<forall>y\<in>set ys. \<exists>v. value_at pdata syear pname y = Inr v \<Longrightarrow>
   \<exists>vs'. snd (hist_years pdata syear pname ys vs) = Inr vs'
       \<and> var_value vs' = (if ys = [] then var_value vs
                           else Some (projr (value_at pdata syear pname (last ys))))"
  by (induction ys arbitrary: vs)
     (auto simp add: then_write_snd value_at_def split: option.splits sum.splits)

lemma inter_value_stale:
  assumes "map_of pdata pname = Some pdict" "round_dir pdict = Some d"
    "d \<noteq> ''down''" "d \<noteq> ''nearest''"
  shows "inter_value pdata pname year (Scalar b) ifac vs = Inr vs"
  using assms by (simp add: inter_value_def)

lemma inter_years_stale:
  assumes "map_of pdata pname = Some pdict" "round_dir pdict = Some d"
    "d \<noteq> ''down''" "d \<noteq> ''nearest''" "var_value vs = Some v"
  shows "inter_years pdata pname (Scalar b) ifac ys vs = (map (\<lambda>y. Entry y v) ys, Inr vs)"
proof (induction ys)
  case Nil
  then show ?case by simp
next
  case (Cons y ys)
  then show ?case
    using assms by (simp add: inter_value_stale [OF assms(1-4)] then_write.simps)
qed

lemma filter_year_entries:
  "distinct ys \<Longrightarrow>
   filter (\<lambda>l. line_year l = Some y) (map (\<lambda>z. Entry z (g z)) ys)
     = (if y \<in> set ys then [Entry y (g y)] else [])"
  by (induction ys) auto

lemma filter_none:
  "\<forall>l\<in>set ls. line_year l \<noteq> Some y \<Longrightarrow> filter (\<lambda>l. line_year l = Some y) ls = []"
  by (induction ls) auto

lemma project_param_stale:
  assumes p: "map_of pdata pname = Some pdict" "round_dir pdict = Some d"
    "d \<noteq> ''down''" "d \<noteq> ''nearest''"
    and w: "pyr < byear"
    and h: "\<forall>y\<in>set [pyr..byear]. \<exists>v. value_at pdata syear pname y = Inr v"
    and b: "value_at pdata syear pname byear = Inr (Scalar b)"
  shows "\<exists>F. fst (project_param pdata syear pyr byear fyr ifac ffac pname vs)
      = Header pname # map (\<lambda>y. Entry y (projr (value_at pdata syear pname y))) [pyr..byear]
        @ map (\<lambda>y. Entry y (Scalar b)) [byear + 1..fyr - 1] @ F
      \<and> (\<forall>l\<in>set F. line_year l = Some fyr)"
proof -
  from h w obtain vp where vp: "value_at pdata syear pname pyr = Inr vp" by fastforce
  let ?vs1 = "vs\<lparr>var_value := Some vp\<rparr>"
  have hy: "\<forall>y\<in>set [pyr + 1..byear]. \<exists>v. value_at pdata syear pname y = Inr v"
    using h by simp
  have l: "last [pyr + 1..byear] = byear" "[pyr + 1..byear] \<noteq> []"
    using w by (simp_all add: upto_rec2)
  from hist_years_snd [OF hy, of ?vs1] l b
  obtain vs2 where vs2: "snd (hist_years pdata syear pname [pyr + 1..byear] ?vs1) = Inr vs2"
    and v2: "var_value vs2 = Some (Scalar b)"
    by auto
  have u: "[pyr..byear] = pyr # [pyr + 1..byear]"
    using w by (simp add: upto_rec1)
  let ?F = "fst (final_year pdata syear pname pyr fyr ffac vs2)"
  have "fst (project_param pdata syear pyr byear fyr ifac ffac pname vs)
      = Header pname # map (\<lambda>y. Entry y (projr (value_at pdata syear pname y))) [pyr..byear]
        @ map (\<lambda>y. Entry y (Scalar b)) [byear + 1..fyr - 1] @ ?F"
    unfolding u
    by (simp add: project_param_def then_write_fst then_write_snd vp hist_years_fst [OF hy] vs2 b
        inter_years_stale [OF p v2])
  then show ?thesis using final_year_years by blast
qed


text \<open>
  C10. For a parameter whose base-year value is a scalar and whose \<^verbatim>\<open>'round_dir'\<close> is
  present but neither \<^verbatim>\<open>'down'\<close> nor \<^verbatim>\<open>'nearest'\<close>, the intermediate-year dispatch assigns
  nothing, and the one line written for each year of \<open>(byear, fyear)\<close> carries the
  base-year historical value. (The historical values of \<open>pyear\<close> to \<open>byear\<close> are readable,
  and \<open>pyear < byear\<close> as the script asserts.)
\<close>

theorem unknown_round_dir_keeps_base_value:
  assumes p: "map_of pdata pname = Some pdict" "round_dir pdict = Some d"
    "d \<noteq> ''down''" "d \<noteq> ''nearest''"
    and w: "pyr < byear"
    and h: "\<forall>y\<in>set [pyr..byear]. \<exists>v. value_at pdata syear pname y = Inr v"
    and b: "value_at pdata syear pname byear = Inr (Scalar b)"
  shows "(\<forall>year vs'. inter_value pdata pname year (Scalar b) ifac vs' = Inr vs')
       \<and> (\<forall>y. byear < y \<and> y < fyr \<longrightarrow>
             filter (\<lambda>l. line_year l = Some y)
               (fst (project_param pdata syear pyr byear fyr ifac ffac pname vs))
             = [Entry y (Scalar b)])"
proof (intro conjI allI impI)
  fix year vs'
  show "inter_value pdata pname year (Scalar b) ifac vs' = Inr vs'"
    by (rule inter_value_stale [OF p])
next
  fix y
  assume y: "byear < y \<and> y < fyr"
  from project_param_stale [OF p w h b, of fyr ifac ffac vs]
  obtain F where ls: "fst (project_param pdata syear pyr byear fyr ifac ffac pname vs)
      = Header pname # map (\<lambda>y. Entry y (projr (value_at pdata syear pname y))) [pyr..byear]
        @ map (\<lambda>y. Entry y (Scalar b)) [byear + 1..fyr - 1] @ F"
    and F: "\<forall>l\<in>set F. line_year l = Some fyr"
    by blast
  from F y have "filter (\<lambda>l. line_year l = Some y) F = []"
    by (intro filter_none) auto
  with y show "filter (\<lambda>l. line_year l = Some y)
               (fst (project_param pdata syear pyr byear fyr ifac ffac pname vs))
             = [Entry y (Scalar b)]"
    unfolding ls by (simp add: filter_year_entries)
qed

theorem unknown_round_dir_witness:
  "map_of [(''_STD'', std_up)] ''_STD'' = Some std_up \<and> round_dir std_up = Some ''up''
   \<and> ''up'' \<noteq> ''down'' \<and> ''up'' \<noteq> ''nearest'' \<and> (2017::int) < 2019
   \<and> value_at [(''_STD'', std_up)] 2013 ''_STD'' 2017 = Inr (Scalar 6350)
   \<and> value_at [(''_STD'', std_up)] 2013 ''_STD'' 2018 = Inr (Scalar 12000)
   \<and> value_at [(''_STD'', std_up)] 2013 ''_STD'' 2019 = Inr (Scalar 12200)
   \<and> (2019::int) < 2021 \<and> (2021::int) < 2026
   \<and> filter (\<lambda>l. line_year l = Some 2021)
        (fst (project_param [(''_STD'', std_up)] 2013 2017 2019 2026 ifactor7 (121 / 100) ''_STD''
               \<lparr>var_value = None, var_val_round = None, var_val = None\<rparr>))
      = [Entry 2021 (Scalar 12200)]"
proof -
  have p: "map_of [(''_STD'', std_up)] ''_STD'' = Some std_up" "round_dir std_up = Some ''up''"
    "''up'' \<noteq> ''down''" "''up'' \<noteq> ''nearest''"
    by (simp_all add: std_up_def)
  have w: "(2017::int) < 2019" by simp
  have a: "value_at [(''_STD'', std_up)] 2013 ''_STD'' 2017 = Inr (Scalar 6350)"
    "value_at [(''_STD'', std_up)] 2013 ''_STD'' 2018 = Inr (Scalar 12000)"
    by (simp_all add: value_at_def std_up_def std_def get_def)
  have b: "value_at [(''_STD'', std_up)] 2013 ''_STD'' 2019 = Inr (Scalar 12200)"
    by (simp add: value_at_def std_up_def std_def get_def)
  have h: "\<forall>y\<in>set [2017..2019]. \<exists>v. value_at [(''_STD'', std_up)] 2013 ''_STD'' y = Inr v"
    using a b by simp
  from unknown_round_dir_keeps_base_value [OF p w h b, THEN conjunct2, rule_format, of 2021 2026]
  have "filter (\<lambda>l. line_year l = Some 2021)
        (fst (project_param [(''_STD'', std_up)] 2013 2017 2019 2026 ifactor7 (121 / 100) ''_STD''
               \<lparr>var_value = None, var_val_round = None, var_val = None\<rparr>))
      = [Entry 2021 (Scalar 12200)]"
    by simp
  with p w a b show ?thesis by simp
qed


subsection \<open>The final-year value\<close>














subsection \<open>The cap\<close>



















end
